theory Spec2Isabelle
  imports Main "HOL-Library.Word"
begin

section \<open>JavaScript values used by the server (src/src/index.ts)\<close>

text \<open>
  Strings are sequences of code units. Header values, the URL and the method reach
  the server as Latin-1 code units, so one \<open>char\<close> is one code unit. A \<open>Buffer\<close> is a
  list of bytes. A thrown exception is \<open>Inl msg\<close> of a sum type, \<open>msg\<close> being
  \<^verbatim>\<open>error.message\<close>.
\<close>

type_synonym byte = "8 word"

type_synonym 'a js = "string + 'a"

text \<open>
  \<^verbatim>\<open>req.body\<close> after \<^verbatim>\<open>express.json()\<close>: a parsed JSON value. A string value is
  held as its UTF-8 bytes. Numbers are the integral ones. An object is the list of
  its key/value pairs in the order in which JavaScript enumerates them; its keys
  are distinct.
\<close>

datatype json =
    JNull
  | JBool bool
  | JNumber int
  | JString string
  | JArray "json list"
  | JObject "(string \<times> json) list"

text \<open>JavaScript truthiness (\<^verbatim>\<open>!x\<close>, \<^verbatim>\<open>x && ...\<close>); \<open>None\<close> is \<^verbatim>\<open>undefined\<close>.\<close>

fun truthy :: "json option \<Rightarrow> bool" where
  "truthy None = False"
| "truthy (Some JNull) = False"
| "truthy (Some (JBool b)) = b"
| "truthy (Some (JNumber n)) = (n \<noteq> 0)"
| "truthy (Some (JString s)) = (s \<noteq> [])"
| "truthy (Some (JArray xs)) = True"
| "truthy (Some (JObject kvs)) = True"

text \<open>\<^verbatim>\<open>Object.keys(v).length\<close> for a value that is not null or undefined.\<close>

fun keysLength :: "json \<Rightarrow> nat" where
  "keysLength (JObject kvs) = length kvs"
| "keysLength (JArray xs) = length xs"
| "keysLength (JString s) = length s"
| "keysLength v = 0"

text \<open>
  Property read \<^verbatim>\<open>v.k\<close> as done by the destructuring \<^verbatim>\<open>const { k } = v\<close>: it throws
  a TypeError on null and undefined.
\<close>

fun getProp :: "json option \<Rightarrow> string \<Rightarrow> (json option) js" where
  "getProp None k = Inl ''Cannot destructure property of undefined''"
| "getProp (Some JNull) k = Inl ''Cannot destructure property of null''"
| "getProp (Some (JObject kvs)) k = Inr (map_of kvs k)"
| "getProp (Some v) k = Inr None"

section \<open>Built-ins of the JavaScript runtime\<close>

text \<open>Decimal digits of an integer, as \<^verbatim>\<open>String(n)\<close> prints an integral number.\<close>

fun showNat :: "nat \<Rightarrow> string" where
  "showNat n =
     (if n < 10 then [''0123456789'' ! n]
      else showNat (n div 10) @ [''0123456789'' ! (n mod 10)])"

definition showInt :: "int \<Rightarrow> string" where
  "showInt i = (if i < 0 then CHR ''-'' # showNat (nat (- i)) else showNat (nat i))"

fun joinWith :: "string \<Rightarrow> string list \<Rightarrow> string" where
  "joinWith sep [] = []"
| "joinWith sep [x] = x"
| "joinWith sep (x # y # ys) = x @ sep @ joinWith sep (y # ys)"

text \<open>
  \<^verbatim>\<open>JSON.stringify(v)\<close> with no indentation. In a string, the quote, the backslash
  and the control characters are escaped; every other character stands for itself.
\<close>

definition quoteChar :: "char \<Rightarrow> string" where
  "quoteChar c =
     (let n = (of_char c :: nat) in
      if n = 34 then [CHR 0x5C, CHR 0x22]
      else if n = 92 then [CHR 0x5C, CHR 0x5C]
      else if n = 8 then [CHR 0x5C, CHR ''b'']
      else if n = 12 then [CHR 0x5C, CHR ''f'']
      else if n = 10 then [CHR 0x5C, CHR ''n'']
      else if n = 13 then [CHR 0x5C, CHR ''r'']
      else if n = 9 then [CHR 0x5C, CHR ''t'']
      else if n < 32 then
        [CHR 0x5C, CHR ''u'', CHR ''0'', CHR ''0'',
         ''0123456789abcdef'' ! (n div 16), ''0123456789abcdef'' ! (n mod 16)]
      else [c])"

definition quoteJSON :: "string \<Rightarrow> string" where
  "quoteJSON s = [CHR 0x22] @ concat (map quoteChar s) @ [CHR 0x22]"

fun JSON_stringify :: "json \<Rightarrow> string" where
  "JSON_stringify JNull = ''null''"
| "JSON_stringify (JBool b) = (if b then ''true'' else ''false'')"
| "JSON_stringify (JNumber n) = showInt n"
| "JSON_stringify (JString s) = quoteJSON s"
| "JSON_stringify (JArray xs) = ''['' @ joinWith '','' (map JSON_stringify xs) @ '']''"
| "JSON_stringify (JObject kvs) =
     ''{'' @ joinWith '','' (map (\<lambda>(k, v). quoteJSON k @ '':'' @ JSON_stringify v) kvs)
       @ ''}''"

text \<open>
  The string coercion of \<^verbatim>\<open>v + '\n'\<close>: a string is itself, an array is its elements
  joined by commas (null printing as nothing), an object is \<^verbatim>\<open>[object Object]\<close>.
\<close>

fun toString :: "json \<Rightarrow> string" where
  "toString JNull = ''null''"
| "toString (JBool b) = (if b then ''true'' else ''false'')"
| "toString (JNumber n) = showInt n"
| "toString (JString s) = s"
| "toString (JArray xs) =
     joinWith '','' (map (\<lambda>x. if x = JNull then [] else toString x) xs)"
| "toString (JObject kvs) = ''[object Object]''"

text \<open>Character classes, by code unit.\<close>

definition unhex :: "char \<Rightarrow> nat option" where
  "unhex c =
     (let n = (of_char c :: nat) in
      if 48 \<le> n \<and> n \<le> 57 then Some (n - 48)
      else if 97 \<le> n \<and> n \<le> 102 then Some (n - 87)
      else if 65 \<le> n \<and> n \<le> 70 then Some (n - 55)
      else None)"

text \<open>
  \<^verbatim>\<open>Buffer.from(s, 'hex')\<close>: pairs of hex digits, cut at the first pair that is not
  two hex digits; a trailing single character is dropped.
\<close>

fun hexDecode :: "string \<Rightarrow> byte list" where
  "hexDecode (a # b # rest) =
     (case unhex a of
        None \<Rightarrow> []
      | Some h \<Rightarrow>
          (case unhex b of
             None \<Rightarrow> []
           | Some l \<Rightarrow> word_of_nat (16 * h + l) # hexDecode rest))"
| "hexDecode s = []"

text \<open>\<^verbatim>\<open>Buffer.from(s, 'utf8')\<close> on Latin-1 code units.\<close>

definition utf8Char :: "char \<Rightarrow> byte list" where
  "utf8Char c =
     (let n = (of_char c :: nat) in
      if n < 128 then [word_of_nat n]
      else [word_of_nat (192 + n div 64), word_of_nat (128 + n mod 64)])"

definition utf8 :: "string \<Rightarrow> byte list" where
  "utf8 s = concat (map utf8Char s)"

text \<open>\<^verbatim>\<open>s.toLowerCase()\<close> on Latin-1 code units: A-Z and the accented capitals.\<close>

definition lowerChar :: "char \<Rightarrow> char" where
  "lowerChar c =
     (let n = (of_char c :: nat) in
      if (65 \<le> n \<and> n \<le> 90) \<or> (192 \<le> n \<and> n \<le> 222 \<and> n \<noteq> 215)
      then char_of (n + 32) else c)"

definition toLowerCase :: "string \<Rightarrow> string" where
  "toLowerCase s = map lowerChar s"

definition startsWith :: "string \<Rightarrow> string \<Rightarrow> bool" where
  "startsWith s p = (take (length p) s = p)"

text \<open>
  \<^verbatim>\<open>parseInt(s, 10)\<close>: leading white space is skipped, one sign is read, then the
  longest run of decimal digits; \<open>None\<close> is NaN (no digit). What follows the digits
  is ignored. The value is kept exact: the caller only compares it with a window
  around the clock, inside which every integer is an exact double.
\<close>

definition isWhite :: "char \<Rightarrow> bool" where
  "isWhite c = ((of_char c :: nat) \<in> {9, 10, 11, 12, 13, 32, 160})"

definition isDigit :: "char \<Rightarrow> bool" where
  "isDigit c = (48 \<le> (of_char c :: nat) \<and> (of_char c :: nat) \<le> 57)"

definition digitsValue :: "string \<Rightarrow> int" where
  "digitsValue ds = foldl (\<lambda>a c. 10 * a + (int (of_char c) - 48)) 0 ds"

definition parseInt :: "string \<Rightarrow> int option" where
  "parseInt s =
     (let t = dropWhile isWhite s;
          neg = (t \<noteq> [] \<and> hd t = CHR ''-'');
          u = (if t \<noteq> [] \<and> (hd t = CHR ''-'' \<or> hd t = CHR ''+'') then tl t else t);
          ds = takeWhile isDigit u
      in if ds = [] then None
         else Some (if neg then - digitsValue ds else digitsValue ds))"

text \<open>
  \<^verbatim>\<open>process.env.ALLOWED_PUBLIC_KEYS?.split(',').filter(s => s) || []\<close>
  (index.ts line 20): the non-empty pieces between commas, as written in the
  environment; \<open>None\<close> is an unset variable.
\<close>

fun splitOn :: "char \<Rightarrow> string \<Rightarrow> string \<Rightarrow> string list" where
  "splitOn d acc [] = [rev acc]"
| "splitOn d acc (c # cs) =
     (if c = d then rev acc # splitOn d [] cs else splitOn d (c # acc) cs)"

definition ALLOWED_PUBLIC_KEYS :: "string option \<Rightarrow> string list" where
  "ALLOWED_PUBLIC_KEYS env =
     (case env of
        None \<Rightarrow> []
      | Some v \<Rightarrow> filter (\<lambda>s. s \<noteq> []) (splitOn CHR '','' [] v))"

section \<open>Requests, responses and the runtime's primitives\<close>

text \<open>
  The fields of an Express request that the server reads. \<open>route\<close> is the handler
  the Express router selects for the request; \<open>rawBody\<close> is the body as the client
  sent it, which the server never reads (it sees \<open>body\<close>, the parsed value).
\<close>

datatype route = Health | ListMounts | Mount string | Unmount string | NoRoute

record request =
  ip :: string
  httpMethod :: string
  path :: string
  originalUrl :: string
  headers :: "string \<rightharpoonup> string"
  body :: "json option"
  rawBody :: string
  route :: route

text \<open>\<^verbatim>\<open>res.status(n).json(v)\<close>; \<^verbatim>\<open>res.json(v)\<close> has status 200.\<close>

record response =
  status :: nat
  payload :: json

definition errorResponse :: "nat \<Rightarrow> string \<Rightarrow> response" where
  "errorResponse n msg = \<lparr>status = n, payload = JObject [(''error'', JString msg)]\<rparr>"

definition faultResponse :: "string \<Rightarrow> string \<Rightarrow> response" where
  "faultResponse msg detail =
     \<lparr>status = 500,
      payload = JObject [(''error'', JString msg), (''message'', JString detail)]\<rparr>"

definition successResponse :: response where
  "successResponse = \<lparr>status = 200, payload = JObject [(''success'', JBool True)]\<rparr>"

text \<open>What a middleware does with a request: pass it on, or answer it.\<close>

datatype handled = Next | Sent response

text \<open>
  The primitives of Node's \<^verbatim>\<open>crypto\<close> module that the server calls, taken as
  parameters: \<^verbatim>\<open>createHash('sha256').update(s).digest('hex')\<close>,
  \<^verbatim>\<open>createPublicKey({key, format: 'der', type: 'spki'})\<close> and
  \<^verbatim>\<open>verify(null, message, key, signature)\<close>. The last two may throw; \<open>'k\<close> is the
  type of key objects.
\<close>

record 'k crypto =
  sha256hex :: "string \<Rightarrow> string"
  createPublicKey :: "byte list \<Rightarrow> 'k js"
  verify :: "byte list \<Rightarrow> 'k \<Rightarrow> byte list \<Rightarrow> bool js"

section \<open>verifySignature (index.ts lines 44-150)\<close>

definition skipsAuthentication :: "string \<Rightarrow> bool" where
  "skipsAuthentication p =
     (p = ''/health'' \<or> startsWith p ''/icon'' \<or> p = ''/manifest.json''
      \<or> p = ''/sw.js'' \<or> p = ''/'')"

text \<open>\<^verbatim>\<open>!h\<close> for a header: undefined or the empty string.\<close>

definition missing :: "string option \<Rightarrow> bool" where
  "missing h = (h = None \<or> h = Some [])"

definition bodyStr :: "json option \<Rightarrow> string" where
  "bodyStr b = (if truthy b \<and> keysLength (the b) > 0 then JSON_stringify (the b) else [])"

definition bodyHash :: "'k crypto \<Rightarrow> json option \<Rightarrow> string" where
  "bodyHash rt b = sha256hex rt (bodyStr b)"

definition message :: "'k crypto \<Rightarrow> request \<Rightarrow> string \<Rightarrow> string" where
  "message rt req timestamp =
     httpMethod req @ '':'' @ originalUrl req @ '':'' @ timestamp @ '':''
       @ bodyHash rt (body req)"

definition spkiPrefix :: "byte list" where
  "spkiPrefix =
     [0x30, 0x2a, 0x30, 0x05, 0x06, 0x03, 0x2b, 0x65, 0x70, 0x03, 0x21, 0x00]"

definition authFailed :: response where
  "authFailed = errorResponse 401 ''Authentication failed''"

text \<open>
  The body of the \<^verbatim>\<open>try\<close> block (lines 67-145); \<open>now\<close> is
  \<^verbatim>\<open>Math.floor(Date.now() / 1000)\<close>. \<open>Inl\<close> is an exception thrown inside the block.
\<close>

definition verifyChecks ::
  "'k crypto \<Rightarrow> string list \<Rightarrow> int \<Rightarrow> request \<Rightarrow> string \<Rightarrow> string \<Rightarrow> string \<Rightarrow> handled js"
where
  "verifyChecks rt allowed now req signature timestamp publicKey =
     (if toLowerCase publicKey \<notin> set allowed then Inr (Sent authFailed)
      else
        (case parseInt timestamp of
           None \<Rightarrow> Inr (Sent authFailed)
         | Some requestTimestamp \<Rightarrow>
             if \<bar>now - requestTimestamp\<bar> > 300 then Inr (Sent authFailed)
             else
               (let signatureBuffer = hexDecode signature;
                    messageBuffer = utf8 (message rt req timestamp);
                    rawPublicKey = hexDecode publicKey;
                    derPublicKey = spkiPrefix @ rawPublicKey
                in case createPublicKey rt derPublicKey of
                     Inl e \<Rightarrow> Inl e
                   | Inr keyObject \<Rightarrow>
                       (case verify rt messageBuffer keyObject signatureBuffer of
                          Inl e \<Rightarrow> Inl e
                        | Inr verified \<Rightarrow>
                            if \<not> verified then Inr (Sent authFailed) else Inr Next))))"

text \<open>
  The middleware. Its result is again a sum, so that an exception leaving the
  function would be a value \<open>Inl\<close>; the \<^verbatim>\<open>catch\<close> clause answers 401 instead.
\<close>

definition verifySignature ::
  "'k crypto \<Rightarrow> string list \<Rightarrow> int \<Rightarrow> request \<Rightarrow> handled js"
where
  "verifySignature rt allowed now req =
     (if skipsAuthentication (path req) then Inr Next
      else if allowed = [] then
        Inr (Sent (errorResponse 503 ''Authentication not configured''))
      else
        (let signature = headers req ''x-signature'';
             timestamp = headers req ''x-timestamp'';
             publicKey = headers req ''x-public-key''
         in if missing signature \<or> missing timestamp \<or> missing publicKey then
              Inr (Sent (errorResponse 401 ''Missing authentication headers''))
            else
              (case verifyChecks rt allowed now req
                      (the signature) (the timestamp) (the publicKey) of
                 Inl e \<Rightarrow> Inr (Sent (errorResponse 401 ''Signature verification failed''))
               | Inr h \<Rightarrow> Inr h)))"

section \<open>The host: systemd units and named pipes (src/module.nix)\<close>

text \<open>
  Every external command the handlers run is recorded, in order. \<open>WriteFile n d\<close>
  is \<^verbatim>\<open>fd.writeFile(d)\<close> on the pipe of volume \<open>n\<close>.
\<close>

datatype command =
    IsActive string
  | ResetFailed string
  | Start string
  | Stop string
  | Readdir
  | OpenPipe string
  | WriteFile string string
  | CloseFd string

text \<open>
  The state of the host as the server sees it. \<open>active n\<close>: \<^verbatim>\<open>systemctl is-active\<close>
  prints \<^verbatim>\<open>active\<close> for the unit of volume \<open>n\<close>. \<open>instances n\<close>: the worker instances of
  the unit that were started and not stopped; a start is counted without asking
  whether the unit runs already, so that a bound on \<open>instances\<close> is a property of the
  handlers. \<open>pipe n\<close>: what was written to the named pipe of \<open>n\<close>, oldest first.
  \<open>volumes\<close>: the entries of the pipes directory. \<open>executed\<close>: the commands run.
\<close>

record world =
  active :: "string \<Rightarrow> bool"
  instances :: "string \<Rightarrow> nat"
  pipe :: "string \<Rightarrow> string list"
  volumes :: "string list"
  executed :: "command list"

text \<open>
  What the host does to the commands of one request: an error message where a
  command fails (its promise rejects). \<open>startSkipped\<close>: the unit's
  \<^verbatim>\<open>ConditionPathIsMountPoint = !mountPoint\<close> does not hold, so \<^verbatim>\<open>systemctl start\<close>
  succeeds and starts nothing.
\<close>

record fate =
  startError :: "string option"
  startSkipped :: bool
  openError :: "string option"
  writeError :: "string option"
  closeError :: "string option"
  stopError :: "string option"
  readdirError :: "string option"

definition run :: "command \<Rightarrow> world \<Rightarrow> world" where
  "run c w = w\<lparr>executed := executed w @ [c]\<rparr>"

text \<open>
  \<^verbatim>\<open>systemctl start\<close> on the unit (\<^verbatim>\<open>Type = exec\<close>, \<^verbatim>\<open>RemainAfterExit = true\<close>): the
  unit is active once its script runs, and stays so when the script exits.
\<close>

definition systemctlStart :: "fate \<Rightarrow> string \<Rightarrow> world \<Rightarrow> world js" where
  "systemctlStart f name w =
     (case startError f of
        Some e \<Rightarrow> Inl e
      | None \<Rightarrow>
          if startSkipped f then Inr w
          else Inr (w\<lparr>active := (active w)(name := True),
                      instances := (instances w)(name := instances w name + 1)\<rparr>))"

definition systemctlStop :: "fate \<Rightarrow> string \<Rightarrow> world \<Rightarrow> world js" where
  "systemctlStop f name w =
     (case stopError f of
        Some e \<Rightarrow> Inl e
      | None \<Rightarrow>
          Inr (w\<lparr>active := (active w)(name := False),
                  instances := (instances w)(name := 0)\<rparr>))"

text \<open>
  \<^verbatim>\<open>open(pipePath, O_WRONLY | O_NONBLOCK)\<close> fails when no process holds the read end
  of the pipe, and only a worker instance reads it.
\<close>

definition openPipe :: "fate \<Rightarrow> string \<Rightarrow> world \<Rightarrow> unit js" where
  "openPipe f name w =
     (case openError f of
        Some e \<Rightarrow> Inl e
      | None \<Rightarrow>
          if instances w name = 0 then Inl ''ENXIO: no such device or address''
          else Inr ())"

definition writeFile :: "fate \<Rightarrow> string \<Rightarrow> string \<Rightarrow> world \<Rightarrow> world js" where
  "writeFile f name d w =
     (case writeError f of
        Some e \<Rightarrow> Inl e
      | None \<Rightarrow> Inr (w\<lparr>pipe := (pipe w)(name := pipe w name @ [d])\<rparr>))"

section \<open>The mount and unmount handlers (index.ts lines 233-330)\<close>

definition nameChar :: "char \<Rightarrow> bool" where
  "nameChar c =
     (let n = (of_char c :: nat) in
      (97 \<le> n \<and> n \<le> 122) \<or> (65 \<le> n \<and> n \<le> 90) \<or> (48 \<le> n \<and> n \<le> 57)
      \<or> n = 46 \<or> n = 95 \<or> n = 45)"

text \<open>\<^verbatim>\<open>/^[a-zA-Z0-9._-]+$/.test(name)\<close>\<close>

definition nameRegex :: "string \<Rightarrow> bool" where
  "nameRegex name = (name \<noteq> [] \<and> list_all nameChar name)"

definition invalidName :: response where
  "invalidName = errorResponse 400
     ''Invalid name format. Only alphanumeric characters, dots, hyphens, and underscores are allowed.''"

text \<open>
  Lines 278-288: open the pipe, write \<^verbatim>\<open>password + '\n'\<close>, close the descriptor in
  the \<^verbatim>\<open>finally\<close> clause. The result is the exception that leaves the block, if any
  (the outer \<^verbatim>\<open>catch\<close> of the handler receives it), and the host afterwards. An
  exception of \<^verbatim>\<open>fd.close()\<close> replaces one of the write. A write that fails leaves
  nothing in the pipe.
\<close>

definition deliver :: "fate \<Rightarrow> string \<Rightarrow> json \<Rightarrow> world \<Rightarrow> string option \<times> world" where
  "deliver f name password w =
     (let w1 = run (OpenPipe name) w in
      case openPipe f name w1 of
        Inl e \<Rightarrow> (Some e, w1)
      | Inr u \<Rightarrow>
          (let d = toString password @ [CHR 0x0A];
               w2 = run (WriteFile name d) w1
           in case writeFile f name d w2 of
                Inl e \<Rightarrow>
                  (case closeError f of
                     Some e' \<Rightarrow> (Some e', run (CloseFd name) w2)
                   | None \<Rightarrow> (Some e, run (CloseFd name) w2))
              | Inr w3 \<Rightarrow> (closeError f, run (CloseFd name) w3)))"

definition mountHandler ::
  "fate \<Rightarrow> string \<Rightarrow> json option \<Rightarrow> world \<Rightarrow> response \<times> world"
where
  "mountHandler f name reqBody w =
     (case getProp reqBody ''password'' of
        Inl e \<Rightarrow> (faultResponse ''Failed to write to pipe'' e, w)
      | Inr password \<Rightarrow>
          if \<not> nameRegex name then (invalidName, w)
          else if \<not> truthy password then
            (errorResponse 400 ''Password is required in request body'', w)
          else
            (let w1 = run (IsActive name) w in
             if active w1 name then (errorResponse 400 ''Already mounted'', w1)
             else
               (let w2 = run (Start name) (run (ResetFailed name) w1) in
                case systemctlStart f name w2 of
                  Inl e \<Rightarrow> (faultResponse ''Failed to start mount service'' e, w2)
                | Inr w3 \<Rightarrow>
                    (case deliver f name (the password) w3 of
                       (Some e, w4) \<Rightarrow> (faultResponse ''Failed to write to pipe'' e, w4)
                     | (None, w4) \<Rightarrow> (successResponse, w4)))))"

definition unmountHandler :: "fate \<Rightarrow> string \<Rightarrow> world \<Rightarrow> response \<times> world" where
  "unmountHandler f name w =
     (if \<not> nameRegex name then (invalidName, w)
      else
        (let w1 = run (IsActive name) w in
         if \<not> active w1 name then (errorResponse 400 ''Mount is not active'', w1)
         else
           (let w2 = run (Stop name) w1 in
            case systemctlStop f name w2 of
              Inl e \<Rightarrow> (faultResponse ''Failed to unmount'' e, w2)
            | Inr w3 \<Rightarrow> (successResponse, w3))))"

definition listHandler :: "fate \<Rightarrow> world \<Rightarrow> response \<times> world" where
  "listHandler f w =
     (let w1 = run Readdir w in
      case readdirError f of
        Some e \<Rightarrow> (faultResponse ''Failed to read pipes directory'' e, w1)
      | None \<Rightarrow>
          (\<lparr>status = 200,
            payload = JObject (map (\<lambda>n. (n, JString (if active w1 n then ''mounted''
                                                     else ''unmounted''))) (volumes w1))\<rparr>,
           w1\<lparr>executed := executed w1 @ map IsActive (volumes w1)\<rparr>))"

section \<open>Rate limiting (index.ts lines 22-41) and the middleware chain (lines 187-194)\<close>

text \<open>
  \<^verbatim>\<open>rateLimit({windowMs, max, skipSuccessfulRequests: true})\<close> of the package
  express-rate-limit, within one window: the client's count goes up when the
  request arrives; a count above \<open>max\<close> is answered 429; when the response is
  finished and was successful, the count goes down again. The source passes no
  \<^verbatim>\<open>requestWasSuccessful\<close>, so the package's default decides: a status below 400.
\<close>

definition requestWasSuccessful :: "response \<Rightarrow> bool" where
  "requestWasSuccessful r = (status r < 400)"

definition rateLimit ::
  "nat \<Rightarrow> string \<Rightarrow> string \<Rightarrow> ('s \<Rightarrow> response \<times> 's) \<Rightarrow> (string \<Rightarrow> nat) \<times> 's
     \<Rightarrow> response \<times> (string \<Rightarrow> nat) \<times> 's"
where
  "rateLimit maxHits msg key inner hs =
     (let hits = (fst hs)(key := fst hs key + 1) in
      if hits key > maxHits then (errorResponse 429 msg, hits, snd hs)
      else
        (let (r, s') = inner (snd hs) in
         (r, if requestWasSuccessful r then hits(key := hits key - 1) else hits, s')))"

definition authFailureLimiter ::
  "string \<Rightarrow> ('s \<Rightarrow> response \<times> 's) \<Rightarrow> (string \<Rightarrow> nat) \<times> 's \<Rightarrow> response \<times> (string \<Rightarrow> nat) \<times> 's"
where
  "authFailureLimiter =
     rateLimit 20 ''Too many failed authentication attempts, please try again later''"

definition mountLimiter ::
  "string \<Rightarrow> ('s \<Rightarrow> response \<times> 's) \<Rightarrow> (string \<Rightarrow> nat) \<times> 's \<Rightarrow> response \<times> (string \<Rightarrow> nat) \<times> 's"
where
  "mountLimiter =
     rateLimit 10 ''Too many failed mount attempts, please try again later''"

text \<open>
  The routes behind \<open>verifySignature\<close>. The state is the mount limiter's counts and
  the host.
\<close>

definition routes ::
  "fate \<Rightarrow> request \<Rightarrow> (string \<Rightarrow> nat) \<times> world \<Rightarrow> response \<times> (string \<Rightarrow> nat) \<times> world"
where
  "routes f req s =
     (case route req of
        Health \<Rightarrow> (\<lparr>status = 200, payload = JObject [(''status'', JString ''ok'')]\<rparr>, s)
      | ListMounts \<Rightarrow> (let (r, w) = listHandler f (snd s) in (r, fst s, w))
      | Mount name \<Rightarrow> mountLimiter (ip req) (mountHandler f name (body req)) s
      | Unmount name \<Rightarrow> mountLimiter (ip req) (unmountHandler f name) s
      | NoRoute \<Rightarrow> (\<lparr>status = 404, payload = JNull\<rparr>, s))"

text \<open>
  The state of the server: the counts of the two limiters and the host.
\<close>

record server =
  authHits :: "string \<Rightarrow> nat"
  mountHits :: "string \<Rightarrow> nat"
  host :: world

text \<open>
  A request that \<^verbatim>\<open>express.static\<close> has not answered: \<open>authFailureLimiter\<close>, then
  \<open>verifySignature\<close>, then the routes. An exception leaving a middleware is answered
  500 by Express.
\<close>

definition protected ::
  "'k crypto \<Rightarrow> string list \<Rightarrow> int \<Rightarrow> fate \<Rightarrow> request \<Rightarrow> (string \<Rightarrow> nat) \<times> world
     \<Rightarrow> response \<times> (string \<Rightarrow> nat) \<times> world"
where
  "protected rt allowed now f req s =
     (case verifySignature rt allowed now req of
        Inl e \<Rightarrow> (\<lparr>status = 500, payload = JNull\<rparr>, s)
      | Inr (Sent r) \<Rightarrow> (r, s)
      | Inr Next \<Rightarrow> routes f req s)"

definition app ::
  "'k crypto \<Rightarrow> string list \<Rightarrow> int \<Rightarrow> fate \<Rightarrow> request \<Rightarrow> server \<Rightarrow> response \<times> server"
where
  "app rt allowed now f req srv =
     (let (r, ah, mh, w) =
            authFailureLimiter (ip req) (protected rt allowed now f req)
              (authHits srv, mountHits srv, host srv)
      in (r, \<lparr>authHits = ah, mountHits = mh, host = w\<rparr>))"

section \<open>The unlock worker (module.nix, mkUnlockScript)\<close>








section \<open>Running requests in sequence\<close>

fun serve ::
  "'k crypto \<Rightarrow> string list \<Rightarrow> int \<Rightarrow> fate \<Rightarrow> request list \<Rightarrow> server
     \<Rightarrow> response list \<times> server"
where
  "serve rt allowed now f [] srv = ([], srv)"
| "serve rt allowed now f (req # reqs) srv =
     (let (r, srv1) = app rt allowed now f req srv;
          (rs, srv2) = serve rt allowed now f reqs srv1
      in (r # rs, srv2))"

text \<open>Calls of the two handlers on the host, one after the other.\<close>

datatype call = CallMount fate string "json option" | CallUnmount fate string

fun calls :: "call list \<Rightarrow> world \<Rightarrow> world" where
  "calls [] w = w"
| "calls (CallMount f name b # cs) w = calls cs (snd (mountHandler f name b w))"
| "calls (CallUnmount f name # cs) w = calls cs (snd (unmountHandler f name w))"

text \<open>
  The unit of a volume and its worker instances agree: the unit is active exactly
  when an instance exists, and there is at most one.
\<close>

definition consistent :: "world \<Rightarrow> string \<Rightarrow> bool" where
  "consistent w name = ((active w name \<longleftrightarrow> instances w name = 1) \<and> instances w name \<le> 1)"

text \<open>The commands a handler call added to those run before it.\<close>

definition commandsOf :: "world \<Rightarrow> world \<Rightarrow> command list" where
  "commandsOf w w' = drop (length (executed w)) (executed w')"

section \<open>Concrete requests, used to instantiate the theorems\<close>

text \<open>
  A stand-in for the crypto module: the digest of a string is the string, a key
  object is its DER encoding and exists for 44 bytes only, and a signature is
  valid when it is the one byte that holds the length of the message.
\<close>

definition toyCrypto :: "(byte list) crypto" where
  "toyCrypto =
     \<lparr>sha256hex = (\<lambda>s. s),
      createPublicKey = (\<lambda>der. if length der = 44 then Inr der else Inl ''Invalid key''),
      verify = (\<lambda>m k s. Inr (s = [word_of_nat (length m)]))\<rparr>"

definition exampleKey :: string where
  "exampleKey = ''a1b2c3d4e5f60718293a4b5c6d7e8f90a1b2c3d4e5f60718293a4b5c6d7e8f90''"

definition upperKey :: string where
  "upperKey = ''A1B2C3D4E5F60718293A4B5C6D7E8F90A1B2C3D4E5F60718293A4B5C6D7E8F90''"

definition exampleClock :: int where
  "exampleClock = 1700000000"

text \<open>
  \<^verbatim>\<open>POST /mount/vault\<close> with the body \<^verbatim>\<open>{"password": "P"}\<close>, a blank after the colon.
\<close>

definition exampleRequest :: request where
  \<open>exampleRequest =
     \<lparr>ip = ''192.0.2.7'', httpMethod = ''POST'', path = ''/mount/vault'',
      originalUrl = ''/mount/vault'',
      headers = [''x-signature'' \<mapsto> ''2d'', ''x-timestamp'' \<mapsto> ''1700000000'',
                 ''x-public-key'' \<mapsto> exampleKey],
      body = Some (JObject [(''password'', JString ''P'')]),
      rawBody = ''{"password": "P"}'',
      route = Mount ''vault''\<rparr>\<close>

text \<open>The same request with the body \<^verbatim>\<open>{}\<close>.\<close>

definition emptyObjectRequest :: request where
  "emptyObjectRequest = exampleRequest\<lparr>body := Some (JObject []), rawBody := ''{}''\<rparr>"

definition noHeadersRequest :: request where
  "noHeadersRequest = exampleRequest\<lparr>headers := Map.empty\<rparr>"

definition goodFate :: fate where
  "goodFate =
     \<lparr>startError = None, startSkipped = False, openError = None, writeError = None,
      closeError = None, stopError = None, readdirError = None\<rparr>"

definition freshWorld :: world where
  "freshWorld =
     \<lparr>active = (\<lambda>n. False), instances = (\<lambda>n. 0), pipe = (\<lambda>n. []),
      volumes = [''vault''], executed = []\<rparr>"

definition freshServer :: server where
  "freshServer = \<lparr>authHits = (\<lambda>c. 0), mountHits = (\<lambda>c. 0), host = freshWorld\<rparr>"

text \<open>A host on which the volume \<^verbatim>\<open>vault\<close> is unlocked: its unit is active.\<close>

definition mountedWorld :: world where
  "mountedWorld =
     freshWorld\<lparr>active := (\<lambda>n. n = ''vault''),
                instances := (\<lambda>n. if n = ''vault'' then 1 else 0)\<rparr>"

section \<open>Facts about the definitions\<close>

subsection \<open>verifySignature and the limiters\<close>

lemma verifyChecks_Next_iff:
  "verifyChecks rt allowed now req sg ts pk = Inr Next \<longleftrightarrow>
     (toLowerCase pk \<in> set allowed
      \<and> (\<exists>t. parseInt ts = Some t \<and> \<bar>now - t\<bar> \<le> 300)
      \<and> (\<exists>k. createPublicKey rt (spkiPrefix @ hexDecode pk) = Inr k
             \<and> verify rt (utf8 (message rt req ts)) k (hexDecode sg) = Inr True))"
  by (auto simp: verifyChecks_def Let_def split: option.splits sum.splits if_splits)

lemma verifySignature_Next_checks:
  assumes "\<not> skipsAuthentication (path req)"
  shows "verifySignature rt allowed now req = Inr Next \<longleftrightarrow>
     (allowed \<noteq> []
      \<and> \<not> missing (headers req ''x-signature'')
      \<and> \<not> missing (headers req ''x-timestamp'')
      \<and> \<not> missing (headers req ''x-public-key'')
      \<and> verifyChecks rt allowed now req (the (headers req ''x-signature''))
            (the (headers req ''x-timestamp'')) (the (headers req ''x-public-key'')) = Inr Next)"
  using assms
  by (auto simp: verifySignature_def Let_def split: sum.splits)

lemma present_iff: "\<not> missing h \<longleftrightarrow> (\<exists>s. h = Some s \<and> s \<noteq> [])"
  by (cases h) (auto simp: missing_def)

lemma verifySignature_missing:
  assumes "\<not> skipsAuthentication (path req)" and "allowed \<noteq> []"
    and "missing (headers req ''x-signature'') \<or> missing (headers req ''x-timestamp'')
         \<or> missing (headers req ''x-public-key'')"
  shows "verifySignature rt allowed now req
           = Inr (Sent (errorResponse 401 ''Missing authentication headers''))"
  using assms by (auto simp: verifySignature_def Let_def)

lemma verifySignature_present:
  assumes "\<not> skipsAuthentication (path req)" and "allowed \<noteq> []"
    and "headers req ''x-signature'' = Some sg" and "sg \<noteq> []"
    and "headers req ''x-timestamp'' = Some ts" and "ts \<noteq> []"
    and "headers req ''x-public-key'' = Some pk" and "pk \<noteq> []"
  shows "verifySignature rt allowed now req =
           (case verifyChecks rt allowed now req sg ts pk of
              Inl e \<Rightarrow> Inr (Sent (errorResponse 401 ''Signature verification failed''))
            | Inr h \<Rightarrow> Inr h)"
  using assms by (simp add: verifySignature_def Let_def missing_def)

lemma status_errorResponse [simp]: "status (errorResponse n msg) = n"
  by (simp add: errorResponse_def)

lemma status_authFailed [simp]: "status authFailed = 401"
  by (simp add: authFailed_def)

lemma app_answered:
  assumes "verifySignature rt allowed now req = Inr (Sent r)"
    and "\<not> requestWasSuccessful r"
  shows "app rt allowed now f req srv =
           (if authHits srv (ip req) < 20 then r
            else errorResponse 429
                   ''Too many failed authentication attempts, please try again later'',
            srv\<lparr>authHits := (authHits srv)(ip req := authHits srv (ip req) + 1)\<rparr>)"
  using assms
  by (simp add: app_def authFailureLimiter_def rateLimit_def protected_def Let_def)

lemma verifyChecks_Inl_iff:
  "(\<exists>e. verifyChecks rt allowed now req sg ts pk = Inl e) \<longleftrightarrow>
     (toLowerCase pk \<in> set allowed
      \<and> (\<exists>t. parseInt ts = Some t \<and> \<bar>now - t\<bar> \<le> 300)
      \<and> ((\<exists>e. createPublicKey rt (spkiPrefix @ hexDecode pk) = Inl e)
           \<or> (\<exists>k e. createPublicKey rt (spkiPrefix @ hexDecode pk) = Inr k
                  \<and> verify rt (utf8 (message rt req ts)) k (hexDecode sg) = Inl e)))"
  by (auto simp: verifyChecks_def Let_def split: option.splits sum.splits if_splits)


lemma not_successful_authFailed [simp]: "\<not> requestWasSuccessful authFailed"
  by (simp add: requestWasSuccessful_def)

lemma example_hyps:
  "\<not> skipsAuthentication (path exampleRequest)"
  "headers exampleRequest ''x-signature'' = Some ''2d''"
  "headers exampleRequest ''x-timestamp'' = Some ''1700000000''"
  "headers exampleRequest ''x-public-key'' = Some exampleKey"
  "toLowerCase exampleKey \<in> set [exampleKey]"
  "parseInt ''1700000000'' = Some 1700000000"
  "exampleKey \<noteq> []"
  "ip exampleRequest = ''192.0.2.7''"
  by code_simp+

lemma example_signature:
  "createPublicKey toyCrypto (spkiPrefix @ hexDecode exampleKey)
     = Inr (spkiPrefix @ hexDecode exampleKey)"
  "verify toyCrypto (utf8 (message toyCrypto exampleRequest ''1700000000''))
     (spkiPrefix @ hexDecode exampleKey) (hexDecode ''2d'') = Inr True"
  by code_simp+

lemma responses_distinct [simp]:
  "errorResponse n a = errorResponse m b \<longleftrightarrow> n = m \<and> a = b"
  by (auto simp: errorResponse_def)

lemma serve_missing:
  assumes "\<not> skipsAuthentication (path req)" and "allowed \<noteq> []"
    and "missing (headers req ''x-signature'') \<or> missing (headers req ''x-timestamp'')
         \<or> missing (headers req ''x-public-key'')"
  shows "snd (serve rt allowed now f (replicate n req) srv)
           = srv\<lparr>authHits := (authHits srv)(ip req := authHits srv (ip req) + n)\<rparr>"
proof (induction n arbitrary: srv)
  case 0
  show ?case by simp
next
  case (Suc n)
  have v: "verifySignature rt allowed now req
             = Inr (Sent (errorResponse 401 ''Missing authentication headers''))"
    using assms by (rule verifySignature_missing)
  have "\<not> requestWasSuccessful (errorResponse 401 ''Missing authentication headers'')"
    by (simp add: requestWasSuccessful_def)
  from app_answered [OF v this, of f srv] Suc.IH
  show ?case by (simp add: split_beta fun_eq_iff)
qed

lemma noHeaders_hyps:
  "\<not> skipsAuthentication (path noHeadersRequest)"
  "missing (headers noHeadersRequest ''x-signature'')
   \<or> missing (headers noHeadersRequest ''x-timestamp'')
   \<or> missing (headers noHeadersRequest ''x-public-key'')"
  "ip noHeadersRequest = ''192.0.2.7''"
  by code_simp+

lemma fun_upd_hit_undo [simp]:
  "(h(k := h k + (1::nat)))(k := (h(k := h k + 1)) k - 1) = h"
  by (simp add: fun_eq_iff)

lemma rateLimit_below:
  assumes "fst hs key < maxHits"
  shows "rateLimit maxHits msg key inner hs =
           (fst (inner (snd hs)),
            if requestWasSuccessful (fst (inner (snd hs))) then fst hs
            else (fst hs)(key := fst hs key + 1),
            snd (inner (snd hs)))"
  using assms by (simp add: rateLimit_def Let_def split_beta)

lemma app_mountHits:
  assumes "verifySignature rt allowed now req = Inr (Sent r)"
  shows "mountHits (snd (app rt allowed now f req srv)) = mountHits srv"
  using assms
  by (simp add: app_def authFailureLimiter_def rateLimit_def protected_def Let_def)

lemma mountHandler_active:
  assumes "nameRegex name" and "getProp b ''password'' = Inr p" and "truthy p"
    and "active w name"
  shows "mountHandler f name b w = (errorResponse 400 ''Already mounted'', run (IsActive name) w)"
  using assms by (simp add: mountHandler_def Let_def run_def)

lemma unmountHandler_inactive:
  assumes "nameRegex name" and "\<not> active w name"
  shows "unmountHandler f name w
           = (errorResponse 400 ''Mount is not active'', run (IsActive name) w)"
  using assms by (simp add: unmountHandler_def Let_def run_def)

lemma stale_example:
  "verifySignature toyCrypto [exampleKey] (exampleClock + 301) exampleRequest
     = Inr (Sent authFailed)"
  by code_simp

lemma example_route:
  "route exampleRequest = Mount ''vault''"
  "nameRegex ''vault''"
  "getProp (body exampleRequest) ''password'' = Inr (Some (JString ''P''))"
  "truthy (Some (JString ''P''))"
  "active mountedWorld ''vault''"
  "route noHeadersRequest = Mount ''vault''"
  by code_simp+

subsection \<open>The handlers and the host\<close>

lemma status_faultResponse [simp]: "status (faultResponse msg d) = 500"
  by (simp add: faultResponse_def)

lemma status_successResponse [simp]: "status successResponse = 200"
  by (simp add: successResponse_def)

lemma status_invalidName [simp]: "status invalidName = 400"
  by (simp add: invalidName_def)

lemma commandsOf_same [simp]: "commandsOf w w = []"
  by (simp add: commandsOf_def)

lemma commandsOf_append [simp]:
  "executed w' = executed w @ cs \<Longrightarrow> commandsOf w w' = cs"
  by (simp add: commandsOf_def)

text \<open>The handler on a request that passes validation for an idle volume.\<close>

lemma mountHandler_valid:
  assumes "nameRegex name" and "getProp b ''password'' = Inr p" and "truthy p"
    and "\<not> active w name"
  shows "mountHandler f name b w =
           (let w2 = run (Start name) (run (ResetFailed name) (run (IsActive name) w)) in
            case systemctlStart f name w2 of
              Inl e \<Rightarrow> (faultResponse ''Failed to start mount service'' e, w2)
            | Inr w3 \<Rightarrow>
                (case deliver f name (the p) w3 of
                   (Some e, w4) \<Rightarrow> (faultResponse ''Failed to write to pipe'' e, w4)
                 | (None, w4) \<Rightarrow> (successResponse, w4)))"
  using assms by (simp add: mountHandler_def Let_def run_def)

lemma mountHandler_start_fails:
  assumes "nameRegex name" and "getProp b ''password'' = Inr p" and "truthy p"
    and "\<not> active w name" and "startError f = Some e"
  shows "mountHandler f name b w =
           (faultResponse ''Failed to start mount service'' e,
            w\<lparr>executed := executed w @ [IsActive name, ResetFailed name, Start name]\<rparr>)"
  using assms by (simp add: mountHandler_valid systemctlStart_def Let_def run_def)

lemma mountHandler_no_start:
  assumes "\<not> (nameRegex name \<and> (\<exists>p. getProp b ''password'' = Inr p \<and> truthy p)
              \<and> \<not> active w name)"
  shows "Start n \<notin> set (commandsOf w (snd (mountHandler f name b w)))
         \<and> status (fst (mountHandler f name b w)) \<noteq> 200
         \<and> pipe (snd (mountHandler f name b w)) = pipe w
         \<and> active (snd (mountHandler f name b w)) = active w
         \<and> instances (snd (mountHandler f name b w)) = instances w"
  using assms
  by (auto simp: mountHandler_def Let_def run_def split: sum.splits)

lemma example_start_fails:
  "Start ''vault'' \<in> set (commandsOf freshWorld
      (snd (mountHandler (goodFate\<lparr>startError := Some ''Job failed''\<rparr>) ''vault''
              (body exampleRequest) freshWorld)))"
  "startError (goodFate\<lparr>startError := Some ''Job failed''\<rparr>) = Some ''Job failed''"
  by code_simp+





lemma deliver_keeps:
  "active (snd (deliver f name p w)) = active w"
  "instances (snd (deliver f name p w)) = instances w"
  by (simp_all add: deliver_def openPipe_def writeFile_def run_def Let_def
                split: option.splits)

lemma deliver_None_reader:
  "fst (deliver f name p w) = None \<Longrightarrow> instances w name \<noteq> 0"
  by (auto simp: deliver_def openPipe_def writeFile_def run_def Let_def
           split: option.splits if_splits)

lemma systemctlStart_cases:
  "systemctlStart f name w = Inr w' \<Longrightarrow>
     (w' = w \<or> w' = w\<lparr>active := (active w)(name := True),
                        instances := (instances w)(name := instances w name + 1)\<rparr>)"
  by (auto simp: systemctlStart_def split: option.splits if_splits)

lemma mountHandler_consistent:
  assumes "consistent w n"
  shows "consistent (snd (mountHandler f name b w)) n"
proof (cases "nameRegex name \<and> (\<exists>p. getProp b ''password'' = Inr p \<and> truthy p)
              \<and> \<not> active w name")
  case False
  from mountHandler_no_start [OF this, of name f] assms show ?thesis
    by (simp add: consistent_def)
next
  case True
  then obtain p where p: "getProp b ''password'' = Inr p" "truthy p" by blast
  let ?w2 = "run (Start name) (run (ResetFailed name) (run (IsActive name) w))"
  have w2: "active ?w2 = active w" "instances ?w2 = instances w"
    by (simp_all add: run_def)
  show ?thesis
  proof (cases "systemctlStart f name ?w2")
    case (Inl e)
    with True p assms w2 show ?thesis
      by (simp add: mountHandler_valid Let_def consistent_def)
  next
    case (Inr w3)
    from systemctlStart_cases [OF Inr] True assms w2
    have "consistent w3 n"
      by (auto simp: consistent_def split: if_splits)
    with True p Inr show ?thesis
      by (simp add: mountHandler_valid Let_def consistent_def deliver_keeps
               split: prod.splits option.splits)
         (metis deliver_keeps snd_conv)+
  qed
qed

lemma unmountHandler_consistent:
  assumes "consistent w n"
  shows "consistent (snd (unmountHandler f name w)) n"
  using assms
  by (auto simp: unmountHandler_def systemctlStop_def run_def Let_def consistent_def
           split: option.splits if_splits)

lemma calls_consistent:
  "consistent w n \<Longrightarrow> consistent (calls cs w) n"
proof (induction cs arbitrary: w)
  case Nil
  then show ?case by simp
next
  case (Cons c cs)
  then show ?case
    by (cases c) (simp_all add: mountHandler_consistent unmountHandler_consistent)
qed

lemma mountHandler_success:
  assumes "consistent w name" and "status (fst (mountHandler f name b w)) = 200"
  shows "active (snd (mountHandler f name b w)) name
         \<and> nameRegex name \<and> (\<exists>p. getProp b ''password'' = Inr p \<and> truthy p)"
proof -
  have v: "nameRegex name \<and> (\<exists>p. getProp b ''password'' = Inr p \<and> truthy p)
           \<and> \<not> active w name"
  proof (rule ccontr)
    assume "\<not> ?thesis"
    from mountHandler_no_start [OF this, of name f] assms(2) show False by simp
  qed
  then obtain p where p: "getProp b ''password'' = Inr p" "truthy p" by blast
  let ?w2 = "run (Start name) (run (ResetFailed name) (run (IsActive name) w))"
  have w2: "active ?w2 = active w" "instances ?w2 = instances w"
    by (simp_all add: run_def)
  from v assms(1) have idle: "instances w name = 0"
    by (auto simp: consistent_def)
  have "active (snd (mountHandler f name b w)) name"
  proof (cases "systemctlStart f name ?w2")
    case (Inl e)
    with v p assms(2) show ?thesis
      by (simp add: mountHandler_valid Let_def)
  next
    case (Inr w3)
    obtain x w4 where d: "deliver f name (the p) w3 = (x, w4)"
      by (cases "deliver f name (the p) w3")
    with v p Inr assms(2) have x: "x = None"
      by (cases x) (simp_all add: mountHandler_valid Let_def)
    with d have "instances w3 name \<noteq> 0"
      using deliver_None_reader [of f name "the p" w3] by simp
    with systemctlStart_cases [OF Inr] idle w2 have "active w3 name"
      by auto
    moreover from d have "active w4 = active w3"
      using deliver_keeps(1) [of f name "the p" w3] by simp
    ultimately show ?thesis
      using v p Inr d x by (simp add: mountHandler_valid Let_def)
  qed
  with v show ?thesis by blast
qed

lemma fresh_consistent: "consistent freshWorld ''vault''"
  by (simp add: consistent_def freshWorld_def)

section \<open>Claims about request authentication\<close>

text \<open>
  Claim C1, as the code has it. The message that is verified is
  \<^verbatim>\<open>METHOD:originalUrl:timestamp:BODYHASH\<close>, where BODYHASH is the hex SHA-256 digest
  of \<^verbatim>\<open>JSON.stringify(req.body)\<close>, the server's own serialisation of the parsed body,
  or of the empty string when the parsed body is absent or has no keys. For a
  request that has passed the key and timestamp checks, verification succeeds
  exactly when \<^verbatim>\<open>createPublicKey\<close> accepts the claimed key and \<^verbatim>\<open>verify\<close> returns true for
  the UTF-8 bytes of that message and the hex-decoded signature.
\<close>

theorem canonical_message_signed:
  assumes "\<not> skipsAuthentication (path req)" and "allowed \<noteq> []"
    and "headers req ''x-signature'' = Some sg" and "sg \<noteq> []"
    and "headers req ''x-timestamp'' = Some ts" and "ts \<noteq> []"
    and "headers req ''x-public-key'' = Some pk" and "pk \<noteq> []"
    and "toLowerCase pk \<in> set allowed"
    and "parseInt ts = Some t" and "\<bar>now - t\<bar> \<le> 300"
  shows "message rt req ts =
           httpMethod req @ '':'' @ originalUrl req @ '':'' @ ts @ '':''
             @ sha256hex rt (if truthy (body req) \<and> 0 < keysLength (the (body req))
                              then JSON_stringify (the (body req)) else [])
         \<and> (verifySignature rt allowed now req = Inr Next \<longleftrightarrow>
              (\<exists>k. createPublicKey rt (spkiPrefix @ hexDecode pk) = Inr k
                 \<and> verify rt (utf8 (message rt req ts)) k (hexDecode sg) = Inr True))"
proof
  show "message rt req ts =
           httpMethod req @ '':'' @ originalUrl req @ '':'' @ ts @ '':''
             @ sha256hex rt (if truthy (body req) \<and> 0 < keysLength (the (body req))
                              then JSON_stringify (the (body req)) else [])"
    by (simp add: message_def bodyHash_def bodyStr_def)
next
  have "verifySignature rt allowed now req = Inr Next \<longleftrightarrow>
          verifyChecks rt allowed now req sg ts pk = Inr Next"
    using assms by (simp add: verifySignature_Next_checks missing_def)
  also have "\<dots> \<longleftrightarrow> (\<exists>k. createPublicKey rt (spkiPrefix @ hexDecode pk) = Inr k
                 \<and> verify rt (utf8 (message rt req ts)) k (hexDecode sg) = Inr True)"
    using assms by (simp add: verifyChecks_Next_iff)
  finally show "verifySignature rt allowed now req = Inr Next \<longleftrightarrow>
              (\<exists>k. createPublicKey rt (spkiPrefix @ hexDecode pk) = Inr k
                 \<and> verify rt (utf8 (message rt req ts)) k (hexDecode sg) = Inr True)" .
qed

theorem canonical_message_signed_witness:
  \<open>message toyCrypto exampleRequest ''1700000000''
     = ''POST:/mount/vault:1700000000:{"password":"P"}''
   \<and> verifySignature toyCrypto [exampleKey] exampleClock exampleRequest = Inr Next\<close>
proof -
  have fresh: "\<bar>exampleClock - 1700000000\<bar> \<le> 300"
    by (simp add: exampleClock_def)
  have ne: "[exampleKey] \<noteq> []" "''2d'' \<noteq> []" "''1700000000'' \<noteq> []"
    by simp_all
  note main = canonical_message_signed
    [where rt = toyCrypto and now = exampleClock,
     OF example_hyps(1) ne(1) example_hyps(2) ne(2) example_hyps(3) ne(3) example_hyps(4)
        example_hyps(7) example_hyps(5) example_hyps(6) fresh]
  have m: \<open>httpMethod exampleRequest @ '':'' @ originalUrl exampleRequest @ '':''
             @ ''1700000000'' @ '':''
             @ sha256hex toyCrypto
                 (if truthy (body exampleRequest) \<and> 0 < keysLength (the (body exampleRequest))
                  then JSON_stringify (the (body exampleRequest)) else [])
           = ''POST:/mount/vault:1700000000:{"password":"P"}''\<close>
    by code_simp
  from main m example_signature show ?thesis by auto
qed

text \<open>
  The digest is not taken of the bytes the client sent: a body with a blank after
  the colon is hashed without the blank, and the two-byte body \<^verbatim>\<open>{}\<close> is hashed as
  the empty string.
\<close>

theorem body_hash_counterexample:
  \<open>rawBody exampleRequest = ''{"password": "P"}''
   \<and> bodyStr (body exampleRequest) = ''{"password":"P"}''
   \<and> bodyStr (body exampleRequest) \<noteq> rawBody exampleRequest
   \<and> rawBody emptyObjectRequest = ''{}''
   \<and> bodyStr (body emptyObjectRequest) = []\<close>
  by code_simp

text \<open>
  Claim C4, as the code has it. Every rejection of a request outside the skip list
  (keys being configured) has status 401, and the answer is one of three: the
  message \<^verbatim>\<open>Missing authentication headers\<close> exactly when a header is missing;
  \<^verbatim>\<open>Authentication failed\<close>, the same response for an untrusted key, a timestamp that
  is not a number or is stale, and a signature that does not verify; and
  \<^verbatim>\<open>Signature verification failed\<close> exactly when building the key or verifying throws.
\<close>

theorem rejection_classes:
  assumes "\<not> skipsAuthentication (path req)" and "allowed \<noteq> []"
    and "verifySignature rt allowed now req = Inr (Sent r)"
    and "headers req ''x-signature'' = sg" and "headers req ''x-timestamp'' = ts"
    and "headers req ''x-public-key'' = pk"
  shows "status r = 401
     \<and> (r = errorResponse 401 ''Missing authentication headers''
          \<longleftrightarrow> missing sg \<or> missing ts \<or> missing pk)
     \<and> (r = authFailed
          \<longleftrightarrow> \<not> (missing sg \<or> missing ts \<or> missing pk)
              \<and> (toLowerCase (the pk) \<notin> set allowed
                   \<or> parseInt (the ts) = None
                   \<or> (\<exists>t. parseInt (the ts) = Some t \<and> \<bar>now - t\<bar> > 300)
                   \<or> (\<exists>k. createPublicKey rt (spkiPrefix @ hexDecode (the pk)) = Inr k
                          \<and> verify rt (utf8 (message rt req (the ts))) k (hexDecode (the sg))
                              = Inr False)))
     \<and> (r = errorResponse 401 ''Signature verification failed''
          \<longleftrightarrow> \<not> (missing sg \<or> missing ts \<or> missing pk)
              \<and> toLowerCase (the pk) \<in> set allowed
              \<and> (\<exists>t. parseInt (the ts) = Some t \<and> \<bar>now - t\<bar> \<le> 300)
              \<and> ((\<exists>e. createPublicKey rt (spkiPrefix @ hexDecode (the pk)) = Inl e)
                   \<or> (\<exists>k e. createPublicKey rt (spkiPrefix @ hexDecode (the pk)) = Inr k
                          \<and> verify rt (utf8 (message rt req (the ts))) k (hexDecode (the sg))
                              = Inl e)))"
proof (cases "missing sg \<or> missing ts \<or> missing pk")
  case True
  with assms have "r = errorResponse 401 ''Missing authentication headers''"
    by (simp add: verifySignature_missing)
  with True show ?thesis by (simp add: authFailed_def)
next
  case False
  then obtain s t p where h: "sg = Some s" "s \<noteq> []" "ts = Some t" "t \<noteq> []"
      "pk = Some p" "p \<noteq> []"
    by (auto simp: present_iff)
  have "verifySignature rt allowed now req = (case verifyChecks rt allowed now req s t p of
              Inl e \<Rightarrow> Inr (Sent (errorResponse 401 ''Signature verification failed''))
            | Inr h \<Rightarrow> Inr h)"
    using assms h by (intro verifySignature_present) simp_all
  with assms(3) have v: "(case verifyChecks rt allowed now req s t p of
              Inl e \<Rightarrow> Inr (Sent (errorResponse 401 ''Signature verification failed''))
            | Inr h \<Rightarrow> Inr h) = (Inr (Sent r) :: handled js)"
    by simp
  from v False h show ?thesis
    by (auto simp: verifyChecks_def Let_def authFailed_def
             split: option.splits sum.splits if_splits)
qed

theorem rejection_classes_witness:
  "verifySignature toyCrypto [exampleKey] (exampleClock + 301) exampleRequest
     = Inr (Sent authFailed)
   \<and> status authFailed = 401
   \<and> authFailed \<noteq> errorResponse 401 ''Missing authentication headers''"
proof -
  have ne: "[exampleKey] \<noteq> []" by simp
  have present: "\<not> (missing (Some ''2d'') \<or> missing (Some ''1700000000'')
                     \<or> missing (Some exampleKey))"
    by (simp add: missing_def example_hyps(7))
  from rejection_classes [OF example_hyps(1) ne stale_example example_hyps(2,3,4)] present
  show ?thesis using stale_example by blast
qed

text \<open>
  Requests rejected by different checks get different answers: the message tells
  a missing header from a stale timestamp, and both from a malformed key.
\<close>

theorem rejection_messages_counterexample:
  "verifySignature toyCrypto [exampleKey] exampleClock noHeadersRequest
     = Inr (Sent (errorResponse 401 ''Missing authentication headers''))
   \<and> verifySignature toyCrypto [exampleKey] (exampleClock + 301) exampleRequest
     = Inr (Sent (errorResponse 401 ''Authentication failed''))
   \<and> verifySignature toyCrypto [''zz''] exampleClock
        (exampleRequest\<lparr>headers := (headers exampleRequest)(''x-public-key'' \<mapsto> ''zz'')\<rparr>)
     = Inr (Sent (errorResponse 401 ''Signature verification failed''))
   \<and> errorResponse 401 ''Missing authentication headers''
       \<noteq> errorResponse 401 ''Authentication failed''
   \<and> errorResponse 401 ''Signature verification failed''
       \<noteq> errorResponse 401 ''Authentication failed''"
  by code_simp





text \<open>
  Claim C6 at a failing input. Only the claimed key is put in lower case; the
  configured entries are compared as written. With the key configured in upper
  case, the validly signed request is rejected whether it presents the key in
  lower or in upper case; with the key configured in lower case it is accepted.
\<close>

theorem uppercase_configured_key_rejected:
  "ALLOWED_PUBLIC_KEYS (Some upperKey) = [upperKey]
   \<and> toLowerCase upperKey = exampleKey
   \<and> verifySignature toyCrypto (ALLOWED_PUBLIC_KEYS (Some upperKey)) exampleClock exampleRequest
       = Inr (Sent authFailed)
   \<and> verifySignature toyCrypto (ALLOWED_PUBLIC_KEYS (Some upperKey)) exampleClock
        (exampleRequest\<lparr>headers := (headers exampleRequest)(''x-public-key'' \<mapsto> upperKey)\<rparr>)
       = Inr (Sent authFailed)
   \<and> verifySignature toyCrypto (ALLOWED_PUBLIC_KEYS (Some exampleKey)) exampleClock exampleRequest
       = Inr Next"
  by code_simp

text \<open>
  Claim C9. Whatever the headers hold, \<open>verifySignature\<close> hands the request on or
  answers it; no exception leaves the middleware. In particular, when the claimed
  key or the signature is malformed, so that \<^verbatim>\<open>createPublicKey\<close> or \<^verbatim>\<open>verify\<close> throws,
  the answer is the 401 response of the \<^verbatim>\<open>catch\<close> clause.
\<close>

theorem verifySignature_never_throws:
  "(\<exists>h. verifySignature rt allowed now req = Inr h)
   \<and> (\<not> skipsAuthentication (path req) \<and> allowed \<noteq> []
        \<and> headers req ''x-signature'' = Some sg \<and> sg \<noteq> []
        \<and> headers req ''x-timestamp'' = Some ts \<and> ts \<noteq> []
        \<and> headers req ''x-public-key'' = Some pk \<and> pk \<noteq> []
        \<and> toLowerCase pk \<in> set allowed
        \<and> parseInt ts = Some t \<and> \<bar>now - t\<bar> \<le> 300
        \<and> ((\<exists>e. createPublicKey rt (spkiPrefix @ hexDecode pk) = Inl e)
             \<or> (\<exists>k e. createPublicKey rt (spkiPrefix @ hexDecode pk) = Inr k
                    \<and> verify rt (utf8 (message rt req ts)) k (hexDecode sg) = Inl e))
      \<longrightarrow> verifySignature rt allowed now req
            = Inr (Sent (errorResponse 401 ''Signature verification failed'')))"
proof (intro conjI impI)
  show "\<exists>h. verifySignature rt allowed now req = Inr h"
    by (auto simp: verifySignature_def Let_def split: sum.splits)
next
  assume a: "\<not> skipsAuthentication (path req) \<and> allowed \<noteq> []
        \<and> headers req ''x-signature'' = Some sg \<and> sg \<noteq> []
        \<and> headers req ''x-timestamp'' = Some ts \<and> ts \<noteq> []
        \<and> headers req ''x-public-key'' = Some pk \<and> pk \<noteq> []
        \<and> toLowerCase pk \<in> set allowed
        \<and> parseInt ts = Some t \<and> \<bar>now - t\<bar> \<le> 300
        \<and> ((\<exists>e. createPublicKey rt (spkiPrefix @ hexDecode pk) = Inl e)
             \<or> (\<exists>k e. createPublicKey rt (spkiPrefix @ hexDecode pk) = Inr k
                    \<and> verify rt (utf8 (message rt req ts)) k (hexDecode sg) = Inl e))"
  then have "\<exists>e. verifyChecks rt allowed now req sg ts pk = Inl e"
    unfolding verifyChecks_Inl_iff by blast
  then obtain e where "verifyChecks rt allowed now req sg ts pk = Inl e" ..
  with a show "verifySignature rt allowed now req
            = Inr (Sent (errorResponse 401 ''Signature verification failed''))"
    by (simp add: verifySignature_present)
qed

theorem verifySignature_never_throws_witness:
  "verifySignature toyCrypto [''zz''] exampleClock
     (exampleRequest\<lparr>headers := [''x-signature'' \<mapsto> ''2d'', ''x-timestamp'' \<mapsto> ''1700000000'',
                                  ''x-public-key'' \<mapsto> ''zz'']\<rparr>)
   = Inr (Sent (errorResponse 401 ''Signature verification failed''))"
proof -
  let ?req = "exampleRequest\<lparr>headers := [''x-signature'' \<mapsto> ''2d'',
                ''x-timestamp'' \<mapsto> ''1700000000'', ''x-public-key'' \<mapsto> ''zz'']\<rparr>"
  have 1: "\<not> skipsAuthentication (path ?req)" by code_simp
  have 2: "toLowerCase ''zz'' \<in> set [''zz'']" by code_simp
  have 3: "parseInt ''1700000000'' = Some 1700000000" by code_simp
  have 4: "\<bar>exampleClock - 1700000000\<bar> \<le> 300" by (simp add: exampleClock_def)
  have 5: "createPublicKey toyCrypto (spkiPrefix @ hexDecode ''zz'') = Inl ''Invalid key''"
    by code_simp
  show ?thesis
    using verifySignature_never_throws
      [of toyCrypto "[''zz'']" exampleClock ?req "''2d''" "''1700000000''" "''zz''" 1700000000,
       THEN conjunct2] 1 2 3 4 5
    by simp
qed

section \<open>Claims about rate limiting\<close>

text \<open>
  Claim C2, as the code has it. A request outside the skip list that lacks one of
  the three headers is rejected with 401 (keys being configured), and the
  rejection is counted like every response of status 400 or more: the client's
  count of authentication failures goes up by one, and once the count has reached
  20 the answer is 429.
\<close>

theorem missing_headers_counted:
  assumes "\<not> skipsAuthentication (path req)" and "allowed \<noteq> []"
    and "missing (headers req ''x-signature'') \<or> missing (headers req ''x-timestamp'')
         \<or> missing (headers req ''x-public-key'')"
  shows "verifySignature rt allowed now req
           = Inr (Sent (errorResponse 401 ''Missing authentication headers''))
         \<and> app rt allowed now f req srv =
             (if authHits srv (ip req) < 20
              then errorResponse 401 ''Missing authentication headers''
              else errorResponse 429
                     ''Too many failed authentication attempts, please try again later'',
              srv\<lparr>authHits := (authHits srv)(ip req := authHits srv (ip req) + 1)\<rparr>)"
proof -
  have v: "verifySignature rt allowed now req
             = Inr (Sent (errorResponse 401 ''Missing authentication headers''))"
    using assms by (rule verifySignature_missing)
  have "\<not> requestWasSuccessful (errorResponse 401 ''Missing authentication headers'')"
    by (simp add: requestWasSuccessful_def)
  from v app_answered [OF v this, of f srv] show ?thesis by simp
qed

theorem missing_headers_counted_witness:
  "app toyCrypto [exampleKey] exampleClock goodFate noHeadersRequest freshServer
     = (errorResponse 401 ''Missing authentication headers'',
        freshServer\<lparr>authHits := (authHits freshServer)(''192.0.2.7'' := 1)\<rparr>)"
proof -
  have ne: "[exampleKey] \<noteq> []" by simp
  from missing_headers_counted
         [where rt = toyCrypto and now = exampleClock and f = goodFate and srv = freshServer,
          OF noHeaders_hyps(1) ne noHeaders_hyps(2), THEN conjunct2]
  show ?thesis by (simp add: noHeaders_hyps(3) freshServer_def)
qed

text \<open>
  A client that sends nothing but requests without headers is denied: after twenty
  of them its count is 20 and the next request is answered 429.
\<close>

theorem missing_headers_counterexample:
  "authHits (snd (serve toyCrypto [exampleKey] exampleClock goodFate
                    (replicate 20 noHeadersRequest) freshServer)) ''192.0.2.7'' = 20
   \<and> fst (app toyCrypto [exampleKey] exampleClock goodFate noHeadersRequest
            (snd (serve toyCrypto [exampleKey] exampleClock goodFate
                    (replicate 20 noHeadersRequest) freshServer)))
       = errorResponse 429 ''Too many failed authentication attempts, please try again later''"
proof -
  have ne: "[exampleKey] \<noteq> []" by simp
  have s: "snd (serve toyCrypto [exampleKey] exampleClock goodFate
                    (replicate 20 noHeadersRequest) freshServer)
           = freshServer\<lparr>authHits := (authHits freshServer)(''192.0.2.7'' := 20)\<rparr>"
    using serve_missing [OF noHeaders_hyps(1) ne noHeaders_hyps(2),
                         of toyCrypto exampleClock goodFate 20 freshServer]
    by (simp add: noHeaders_hyps(3) freshServer_def)
  have v: "verifySignature toyCrypto [exampleKey] exampleClock noHeadersRequest
             = Inr (Sent (errorResponse 401 ''Missing authentication headers''))"
    using noHeaders_hyps(1) ne noHeaders_hyps(2) by (rule verifySignature_missing)
  have "\<not> requestWasSuccessful (errorResponse 401 ''Missing authentication headers'')"
    by (simp add: requestWasSuccessful_def)
  from app_answered [OF v this] show ?thesis
    by (simp add: s noHeaders_hyps(3))
qed

text \<open>
  Claim C3, as the code has it. While the client's mount count is below 10, every
  answer of the mount and unmount routes with a status of 400 or more is recorded
  against the mount class and an answer below 400 is not; the answers
  \<^verbatim>\<open>Already mounted\<close> and \<^verbatim>\<open>Mount is not active\<close> are 400 and are recorded. A request
  that \<open>verifySignature\<close> rejects never reaches the mount limiter: it is recorded
  against the authentication class and leaves the mount counts as they were.
\<close>

theorem mount_outcomes_counted:
  "(route req = Mount name \<and> mh (ip req) < 10 \<longrightarrow>
      routes f req (mh, w) =
        (fst (mountHandler f name (body req) w),
         if status (fst (mountHandler f name (body req) w)) < 400 then mh
         else mh(ip req := mh (ip req) + 1),
         snd (mountHandler f name (body req) w)))
   \<and> (route req = Unmount name \<and> mh (ip req) < 10 \<longrightarrow>
      routes f req (mh, w) =
        (fst (unmountHandler f name w),
         if status (fst (unmountHandler f name w)) < 400 then mh
         else mh(ip req := mh (ip req) + 1),
         snd (unmountHandler f name w)))
   \<and> (route req = Mount name \<and> mh (ip req) < 10 \<and> nameRegex name
        \<and> getProp (body req) ''password'' = Inr p \<and> truthy p \<and> active w name \<longrightarrow>
      routes f req (mh, w) =
        (errorResponse 400 ''Already mounted'', mh(ip req := mh (ip req) + 1),
         run (IsActive name) w))
   \<and> (route req = Unmount name \<and> mh (ip req) < 10 \<and> nameRegex name
        \<and> \<not> active w name \<longrightarrow>
      routes f req (mh, w) =
        (errorResponse 400 ''Mount is not active'', mh(ip req := mh (ip req) + 1),
         run (IsActive name) w))
   \<and> (verifySignature rt allowed now req = Inr (Sent r) \<and> \<not> requestWasSuccessful r
        \<and> authHits srv (ip req) < 20 \<longrightarrow>
      app rt allowed now f req srv =
        (r, srv\<lparr>authHits := (authHits srv)(ip req := authHits srv (ip req) + 1)\<rparr>)
      \<and> mountHits (snd (app rt allowed now f req srv)) = mountHits srv)"
proof (intro conjI impI)
  assume "route req = Mount name \<and> mh (ip req) < 10"
  then show "routes f req (mh, w) =
        (fst (mountHandler f name (body req) w),
         if status (fst (mountHandler f name (body req) w)) < 400 then mh
         else mh(ip req := mh (ip req) + 1),
         snd (mountHandler f name (body req) w))"
    by (simp add: routes_def mountLimiter_def rateLimit_below requestWasSuccessful_def)
next
  assume "route req = Unmount name \<and> mh (ip req) < 10"
  then show "routes f req (mh, w) =
        (fst (unmountHandler f name w),
         if status (fst (unmountHandler f name w)) < 400 then mh
         else mh(ip req := mh (ip req) + 1),
         snd (unmountHandler f name w))"
    by (simp add: routes_def mountLimiter_def rateLimit_below requestWasSuccessful_def)
next
  assume "route req = Mount name \<and> mh (ip req) < 10 \<and> nameRegex name
        \<and> getProp (body req) ''password'' = Inr p \<and> truthy p \<and> active w name"
  then show "routes f req (mh, w) =
        (errorResponse 400 ''Already mounted'', mh(ip req := mh (ip req) + 1),
         run (IsActive name) w)"
    by (simp add: routes_def mountLimiter_def rateLimit_below requestWasSuccessful_def
                  mountHandler_active)
next
  assume "route req = Unmount name \<and> mh (ip req) < 10 \<and> nameRegex name
        \<and> \<not> active w name"
  then show "routes f req (mh, w) =
        (errorResponse 400 ''Mount is not active'', mh(ip req := mh (ip req) + 1),
         run (IsActive name) w)"
    by (simp add: routes_def mountLimiter_def rateLimit_below requestWasSuccessful_def
                  unmountHandler_inactive)
next
  assume a: "verifySignature rt allowed now req = Inr (Sent r) \<and> \<not> requestWasSuccessful r
        \<and> authHits srv (ip req) < 20"
  then show "app rt allowed now f req srv =
        (r, srv\<lparr>authHits := (authHits srv)(ip req := authHits srv (ip req) + 1)\<rparr>)"
    by (simp add: app_answered)
  from a show "mountHits (snd (app rt allowed now f req srv)) = mountHits srv"
    by (simp add: app_mountHits)
qed

theorem mount_outcomes_counted_witness:
  "routes goodFate exampleRequest (\<lambda>c. 0, mountedWorld) =
     (errorResponse 400 ''Already mounted'', (\<lambda>c. 0)(''192.0.2.7'' := 1),
      run (IsActive ''vault'') mountedWorld)
   \<and> mountHits (snd (app toyCrypto [exampleKey] exampleClock goodFate noHeadersRequest
                       freshServer)) = mountHits freshServer"
proof -
  note main = mount_outcomes_counted
    [where req = exampleRequest and name = "''vault''" and mh = "\<lambda>c. 0" and w = mountedWorld
       and f = goodFate and p = "Some (JString ''P'')"]
  have a: "routes goodFate exampleRequest (\<lambda>c. 0, mountedWorld) =
     (errorResponse 400 ''Already mounted'', (\<lambda>c. 0)(''192.0.2.7'' := 1),
      run (IsActive ''vault'') mountedWorld)"
    using main [THEN conjunct2, THEN conjunct2, THEN conjunct1] example_route
    by (simp add: example_hyps(8))
  have ne: "[exampleKey] \<noteq> []" by simp
  have v: "verifySignature toyCrypto [exampleKey] exampleClock noHeadersRequest
             = Inr (Sent (errorResponse 401 ''Missing authentication headers''))"
    using noHeaders_hyps(1) ne noHeaders_hyps(2) by (rule verifySignature_missing)
  have b: "mountHits (snd (app toyCrypto [exampleKey] exampleClock goodFate noHeadersRequest
                       freshServer)) = mountHits freshServer"
    using mount_outcomes_counted
      [where req = noHeadersRequest and rt = toyCrypto and allowed = "[exampleKey]"
         and now = exampleClock and srv = freshServer and f = goodFate
         and r = "errorResponse 401 ''Missing authentication headers''",
       THEN conjunct2, THEN conjunct2, THEN conjunct2, THEN conjunct2] v
    by (simp add: requestWasSuccessful_def freshServer_def)
  from a b show ?thesis ..
qed

text \<open>
  A mount request for a mounted volume and an unmount request for an idle one are
  answered 400 and raise the client's mount count to 1; a request with a stale
  timestamp on the mount route leaves it at 0.
\<close>

theorem idempotency_counted_counterexample:
  "fst (routes goodFate exampleRequest (\<lambda>c. 0, mountedWorld))
     = errorResponse 400 ''Already mounted''
   \<and> fst (snd (routes goodFate exampleRequest (\<lambda>c. 0, mountedWorld))) ''192.0.2.7'' = 1
   \<and> fst (routes goodFate (exampleRequest\<lparr>route := Unmount ''vault''\<rparr>) (\<lambda>c. 0, freshWorld))
     = errorResponse 400 ''Mount is not active''
   \<and> fst (snd (routes goodFate (exampleRequest\<lparr>route := Unmount ''vault''\<rparr>)
                 (\<lambda>c. 0, freshWorld))) ''192.0.2.7'' = 1
   \<and> mountHits (snd (app toyCrypto [exampleKey] (exampleClock + 301) goodFate exampleRequest
                       freshServer)) ''192.0.2.7'' = 0"
proof -
  have m: "mountHandler goodFate ''vault'' (body exampleRequest) mountedWorld
             = (errorResponse 400 ''Already mounted'', run (IsActive ''vault'') mountedWorld)"
    using example_route(2,3,4,5) by (rule mountHandler_active)
  have u: "unmountHandler goodFate ''vault'' freshWorld
             = (errorResponse 400 ''Mount is not active'', run (IsActive ''vault'') freshWorld)"
    using example_route(2) by (rule unmountHandler_inactive) (simp add: freshWorld_def)
  have r1: "routes goodFate exampleRequest (\<lambda>c. 0, mountedWorld)
              = (errorResponse 400 ''Already mounted'', (\<lambda>c. 0)(''192.0.2.7'' := 1),
                 run (IsActive ''vault'') mountedWorld)"
    by (simp add: routes_def mountLimiter_def rateLimit_below requestWasSuccessful_def
                  example_route(1) example_hyps(8) m)
  have r2: "routes goodFate (exampleRequest\<lparr>route := Unmount ''vault''\<rparr>) (\<lambda>c. 0, freshWorld)
              = (errorResponse 400 ''Mount is not active'', (\<lambda>c. 0)(''192.0.2.7'' := 1),
                 run (IsActive ''vault'') freshWorld)"
    by (simp add: routes_def mountLimiter_def rateLimit_below requestWasSuccessful_def
                  example_hyps(8) u)
  have "mountHits (snd (app toyCrypto [exampleKey] (exampleClock + 301) goodFate exampleRequest
                       freshServer)) = mountHits freshServer"
    using stale_example by (rule app_mountHits)
  then show ?thesis by (simp add: r1 r2 freshServer_def)
qed

section \<open>Claims about the mount handler and the worker\<close>

text \<open>
  Claim C7. On a host where the unit of a volume and its worker instances agree,
  two mount calls in a row for the volume succeed at most once: when the first is
  answered 200, the second is not, it runs no start command and leaves the
  instances, the units and the pipe as they were; sent with the same body it is
  answered 400 \<^verbatim>\<open>Already mounted\<close> after the activity check alone. After each call,
  and after any sequence of mount and unmount calls, the volume has at most one
  worker instance.
\<close>

theorem mount_twice:
  assumes "consistent w name"
    and "mountHandler f1 name b w = (r1, w1)"
    and "mountHandler f2 name b' w1 = (r2, w2)"
  shows "instances w1 name \<le> 1 \<and> instances w2 name \<le> 1
         \<and> instances (calls cs w) name \<le> 1
         \<and> (status r1 = 200 \<longrightarrow>
              status r2 \<noteq> 200
              \<and> Start name \<notin> set (commandsOf w1 w2)
              \<and> instances w2 = instances w1 \<and> active w2 = active w1 \<and> pipe w2 = pipe w1
              \<and> (b' = b \<longrightarrow>
                   r2 = errorResponse 400 ''Already mounted''
                   \<and> commandsOf w1 w2 = [IsActive name]))"
proof -
  have c1: "consistent w1 name"
    using mountHandler_consistent [OF assms(1), of f1 name b] assms(2) by simp
  have c2: "consistent w2 name"
    using mountHandler_consistent [OF c1, of f2 name b'] assms(3) by simp
  have c3: "consistent (calls cs w) name"
    using assms(1) by (rule calls_consistent)
  have second: "status r2 \<noteq> 200
              \<and> Start name \<notin> set (commandsOf w1 w2)
              \<and> instances w2 = instances w1 \<and> active w2 = active w1 \<and> pipe w2 = pipe w1
              \<and> (b' = b \<longrightarrow>
                   r2 = errorResponse 400 ''Already mounted''
                   \<and> commandsOf w1 w2 = [IsActive name])"
    if ok: "status r1 = 200"
  proof -
    from mountHandler_success [OF assms(1), of f1 b] assms(2) ok
    have a: "active w1 name" and v: "nameRegex name"
      and "\<exists>p. getProp b ''password'' = Inr p \<and> truthy p"
      by simp_all
    then obtain p where p: "getProp b ''password'' = Inr p" "truthy p" by blast
    from a have "\<not> (nameRegex name \<and> (\<exists>p. getProp b' ''password'' = Inr p \<and> truthy p)
                     \<and> \<not> active w1 name)"
      by simp
    from mountHandler_no_start [OF this, of name f2] assms(3)
    have gen: "status r2 \<noteq> 200 \<and> Start name \<notin> set (commandsOf w1 w2)
               \<and> instances w2 = instances w1 \<and> active w2 = active w1 \<and> pipe w2 = pipe w1"
      by simp
    have "r2 = errorResponse 400 ''Already mounted'' \<and> commandsOf w1 w2 = [IsActive name]"
      if "b' = b"
      using mountHandler_active [OF v p a, of f2] assms(3) that
      by (auto simp: run_def)
    with gen show ?thesis by blast
  qed
  from c1 c2 c3 second show ?thesis
    by (simp add: consistent_def)
qed

theorem mount_twice_witness:
  "fst (mountHandler goodFate ''vault'' (body exampleRequest) freshWorld) = successResponse
   \<and> fst (mountHandler goodFate ''vault'' (body exampleRequest)
            (snd (mountHandler goodFate ''vault'' (body exampleRequest) freshWorld)))
       = errorResponse 400 ''Already mounted''
   \<and> instances (snd (mountHandler goodFate ''vault'' (body exampleRequest)
            (snd (mountHandler goodFate ''vault'' (body exampleRequest) freshWorld)))) ''vault''
       \<le> 1"
proof -
  let ?m1 = "mountHandler goodFate ''vault'' (body exampleRequest) freshWorld"
  let ?m2 = "mountHandler goodFate ''vault'' (body exampleRequest) (snd ?m1)"
  have ok: "fst ?m1 = successResponse"
    by code_simp
  have e1: "?m1 = (fst ?m1, snd ?m1)" and e2: "?m2 = (fst ?m2, snd ?m2)"
    by simp_all
  from mount_twice [OF fresh_consistent e1 e2, of "[]"] ok
  show ?thesis by simp
qed




text \<open>
  Claim C10. In every mount request in which \<^verbatim>\<open>systemctl start\<close> is run and fails,
  the handler answers 500 \<^verbatim>\<open>Failed to start mount service\<close> and has run nothing but
  the activity check, the reset and the start: the pipe is neither opened nor
  written, and the host is as before.
\<close>

theorem start_failure_writes_nothing:
  assumes "mountHandler f name b w = (r, w')" and "startError f = Some e"
    and "Start n \<in> set (commandsOf w w')"
  shows "r = faultResponse ''Failed to start mount service'' e
         \<and> status r = 500
         \<and> commandsOf w w' = [IsActive name, ResetFailed name, Start name]
         \<and> pipe w' = pipe w \<and> active w' = active w \<and> instances w' = instances w"
proof -
  have v: "nameRegex name \<and> (\<exists>p. getProp b ''password'' = Inr p \<and> truthy p)
           \<and> \<not> active w name"
  proof (rule ccontr)
    assume "\<not> ?thesis"
    from mountHandler_no_start [OF this, of n f] assms(1,3) show False by simp
  qed
  then obtain p where "getProp b ''password'' = Inr p" "truthy p" by blast
  with v assms(2) have "mountHandler f name b w =
           (faultResponse ''Failed to start mount service'' e,
            w\<lparr>executed := executed w @ [IsActive name, ResetFailed name, Start name]\<rparr>)"
    by (intro mountHandler_start_fails) simp_all
  with assms(1) show ?thesis by auto
qed

theorem start_failure_writes_nothing_witness:
  "fst (mountHandler (goodFate\<lparr>startError := Some ''Job failed''\<rparr>) ''vault''
          (body exampleRequest) freshWorld)
     = faultResponse ''Failed to start mount service'' ''Job failed''
   \<and> commandsOf freshWorld
        (snd (mountHandler (goodFate\<lparr>startError := Some ''Job failed''\<rparr>) ''vault''
                (body exampleRequest) freshWorld))
     = [IsActive ''vault'', ResetFailed ''vault'', Start ''vault'']
   \<and> pipe (snd (mountHandler (goodFate\<lparr>startError := Some ''Job failed''\<rparr>) ''vault''
                  (body exampleRequest) freshWorld))
     = pipe freshWorld"
proof -
  have "mountHandler (goodFate\<lparr>startError := Some ''Job failed''\<rparr>) ''vault''
          (body exampleRequest) freshWorld
        = (fst (mountHandler (goodFate\<lparr>startError := Some ''Job failed''\<rparr>) ''vault''
                  (body exampleRequest) freshWorld),
           snd (mountHandler (goodFate\<lparr>startError := Some ''Job failed''\<rparr>) ''vault''
                  (body exampleRequest) freshWorld))"
    by simp
  from start_failure_writes_nothing [OF this example_start_fails(2) example_start_fails(1)]
  show ?thesis by blast
qed

end
